theory Spec2Isabelle
  imports Complex_Main
begin

section \<open>Results of fallible code\<close>

text \<open>
  Every exception the tutorials' code can raise is a value: a call returns
  \<open>Inl e\<close> when it raises \<open>e\<close> and \<open>Inr v\<close> when it returns \<open>v\<close>.
  \<open>IndexError\<close>, \<open>ValueError\<close> and \<open>FileNotFoundError\<close> are Python's,
  \<open>BoundsError\<close> and \<open>ArgumentError\<close> are Julia's.
\<close>

datatype error = IndexError | ValueError | FileNotFoundError | BoundsError | ArgumentError

definition bind_res :: "'e + 'a \<Rightarrow> ('a \<Rightarrow> 'e + 'b) \<Rightarrow> 'e + 'b" where
  "bind_res r f = (case r of Inl e \<Rightarrow> Inl e | Inr v \<Rightarrow> f v)"

text \<open>A loop (or generator) whose body may raise: it stops at the first error.\<close>

fun for_each :: "('a \<Rightarrow> 'e + 'b) \<Rightarrow> 'a list \<Rightarrow> 'e + 'b list" where
  "for_each f [] = Inr []"
| "for_each f (i # js) =
     bind_res (f i) (\<lambda>v. bind_res (for_each f js) (\<lambda>vs. Inr (v # vs)))"

text \<open>
  \<open>xs[i]\<close> in Python for an index that comes from \<open>range(n)\<close>, hence is not negative:
  it raises IndexError at and beyond the length.
\<close>

definition getitem :: "'a list \<Rightarrow> nat \<Rightarrow> error + 'a" where
  "getitem xs i = (if i < length xs then Inr (xs ! i) else Inl IndexError)"

text \<open>\<open>xs[g]\<close> in Julia: indices start at one, BoundsError outside \<open>1:length(xs)\<close>.\<close>

definition getindex :: "'a list \<Rightarrow> nat \<Rightarrow> error + 'a" where
  "getindex xs g = (if 1 \<le> g \<and> g \<le> length xs then Inr (xs ! (g - 1)) else Inl BoundsError)"

section \<open>The problem data\<close>

text \<open>
  The dataclass (Python) and struct (Julia) \<open>UnitCommitmentData\<close>. Its numbers are
  64-bit floats in both languages; they are modelled as real numbers.
\<close>

record UnitCommitmentData =
  demand :: real
  pmin :: "real list"
  pmax :: "real list"
  cfix :: "real list"
  cvar :: "real list"

text \<open>The argument of a model builder: a path to a data file, or the data itself.\<close>

datatype 'd data_arg = Path string | Data 'd

section \<open>The algebraic modelling layer\<close>

text \<open>
  Pyomo and JuMP build a symbolic mixed-integer program: the builder's arithmetic on
  decision variables constructs expressions, it computes nothing. A decision variable
  is \<open>x[i]\<close> or \<open>y[i]\<close> of the model; an expression is a number, a variable, a
  number times an expression, the sum of two expressions, or the sum of a list of
  expressions. The model keeps an expression in the form in which the source writes it;
  a library may store it in another form of the same value.
\<close>

datatype var = X nat | Y nat

datatype expr =
    Num real
  | V var
  | Times real expr
  | Plus expr expr
  | SumOf "expr list"

datatype relation = Le expr expr | Ge expr expr | Eq expr expr

text \<open>
  Python's builtin \<open>sum\<close> starts from the number \<open>0\<close>: over an empty generator it
  returns that number, over a non-empty one of expressions it returns their sum.
\<close>

fun py_sum :: "expr list \<Rightarrow> expr" where
  "py_sum [] = Num 0"
| "py_sum (e # es) = SumOf (e # es)"

text \<open>
  A comparison \<open><=\<close>, \<open>>=\<close> or \<open>==\<close> yields a relational expression of the
  modelling layer as soon as one side is an expression with a variable; between two
  plain numbers Python compares them and yields a Boolean.
\<close>

datatype relexpr = Rel relation | Trivial bool

fun py_le :: "expr \<Rightarrow> expr \<Rightarrow> relexpr" where
  "py_le (Num a) (Num b) = Trivial (a \<le> b)"
| "py_le l r = Rel (Le l r)"

fun py_ge :: "expr \<Rightarrow> expr \<Rightarrow> relexpr" where
  "py_ge (Num a) (Num b) = Trivial (a \<ge> b)"
| "py_ge l r = Rel (Ge l r)"

fun py_eq :: "expr \<Rightarrow> expr \<Rightarrow> relexpr" where
  "py_eq (Num a) (Num b) = Trivial (a = b)"
| "py_eq l r = Rel (Eq l r)"

text \<open>
  \<open>pe.Constraint(expr=...)\<close> and \<open>ConstraintList.add\<close> take a relational
  expression; Pyomo refuses a trivial Boolean with a ValueError.
\<close>

fun pe_Constraint :: "relexpr \<Rightarrow> error + relation" where
  "pe_Constraint (Rel r) = Inr r"
| "pe_Constraint (Trivial b) = Inl ValueError"

subsection \<open>The Pyomo model\<close>

datatype domain = Binary | NonNegativeReals

text \<open>\<open>pe.Var(range(n), domain=d)\<close>: the index set and the domain of its variables.\<close>

datatype var_component = Var "nat list" domain

datatype sense = minimize | maximize

datatype objective = Objective expr sense

text \<open>\<open>pe.Objective(expr=e)\<close>: Pyomo's sense, when none is given, is to minimize.\<close>

definition pe_Objective :: "expr \<Rightarrow> objective" where
  "pe_Objective e = Objective e minimize"

text \<open>The attributes that \<open>build_uc_model\<close> sets on its \<open>pe.ConcreteModel()\<close>.\<close>

record ConcreteModel =
  model_x :: var_component
  model_y :: var_component
  model_obj :: objective
  model_eq_max_power :: "relation list"
  model_eq_min_power :: "relation list"
  model_eq_demand :: relation

text \<open>The wrapper: the model and the name of the solver.\<close>

datatype PyomoModel = PyomoModel ConcreteModel string

section \<open>The Pyomo model builder\<close>

text \<open>
  \<open>build_uc_model\<close> of the Pyomo tutorial. \<open>read_pkl_gz\<close> is the library's reader
  of a data file, a parameter here. The objective's generator reads \<open>cfix[i]\<close> then
  \<open>cvar[i]\<close> for each \<open>i\<close>; the loop reads \<open>pmax[i]\<close>, adds to
  \<open>eq_max_power\<close>, reads \<open>pmin[i]\<close> and adds to \<open>eq_min_power\<close>. The indices of
  \<open>model.x[i]\<close> and \<open>model.y[i]\<close> run over the very range that declares \<open>x\<close> and
  \<open>y\<close>.
\<close>

definition build_uc_model ::
  "(string \<Rightarrow> error + 'a UnitCommitmentData_scheme) \<Rightarrow>
   'a UnitCommitmentData_scheme data_arg \<Rightarrow> error + PyomoModel" where
  "build_uc_model read_pkl_gz arg =
     bind_res (case arg of Path p \<Rightarrow> read_pkl_gz p | Data d \<Rightarrow> Inr d) (\<lambda>data.
     let n = length (pmin data);
         x = Var [0..<n] Binary;
         y = Var [0..<n] NonNegativeReals
     in
     bind_res (for_each (\<lambda>i.
         bind_res (getitem (cfix data) i) (\<lambda>cf.
         bind_res (getitem (cvar data) i) (\<lambda>cv.
         Inr (Plus (Times cf (V (X i))) (Times cv (V (Y i))))))) [0..<n]) (\<lambda>terms.
     let obj = pe_Objective (py_sum terms) in
     bind_res (for_each (\<lambda>i.
         bind_res (getitem (pmax data) i) (\<lambda>pmax_i.
         bind_res (pe_Constraint (py_le (V (Y i)) (Times pmax_i (V (X i))))) (\<lambda>c_max.
         bind_res (getitem (pmin data) i) (\<lambda>pmin_i.
         bind_res (pe_Constraint (py_ge (V (Y i)) (Times pmin_i (V (X i))))) (\<lambda>c_min.
         Inr (c_max, c_min)))))) [0..<n]) (\<lambda>cs.
     bind_res (pe_Constraint
         (py_eq (py_sum (map (\<lambda>i. V (Y i)) [0..<n])) (Num (demand data)))) (\<lambda>eq_demand.
     Inr (PyomoModel
       \<lparr>model_x = x, model_y = y, model_obj = obj,
        model_eq_max_power = map fst cs, model_eq_min_power = map snd cs,
        model_eq_demand = eq_demand\<rparr> ''gurobi_persistent'')))))"


fun indices :: "var_component \<Rightarrow> nat list" where
  "indices (Var js d) = js"

fun domain_of :: "var_component \<Rightarrow> domain" where
  "domain_of (Var js d) = d"

section \<open>The JuMP model builder\<close>

text \<open>
  \<open>@variable(model, x[G], Bin)\<close> declares binary variables over the index range
  \<open>G\<close>, \<open>@variable(model, y[G] >= 0)\<close> continuous variables with a lower bound.
\<close>

datatype var_info = Bin | LowerBound real

datatype jump_variables = Variables "nat list" var_info

fun jl_indices :: "jump_variables \<Rightarrow> nat list" where
  "jl_indices (Variables G k) = G"

fun jl_info :: "jump_variables \<Rightarrow> var_info" where
  "jl_info (Variables G k) = k"

record JuMP_Model =
  jl_optimizer :: string
  jl_x :: jump_variables
  jl_y :: jump_variables
  jl_objective :: objective
  jl_eq_max_power :: "relation list"
  jl_eq_min_power :: "relation list"
  jl_eq_demand :: relation

datatype JumpModel = JumpModel JuMP_Model

text \<open>
  \<open>build_uc_model\<close> of the JuMP tutorial; \<open>read_jld2\<close> is the library's reader, a
  parameter. \<open>G = 1:length(data.pmin)\<close>, and every list is read at the indices of
  \<open>G\<close>, which start at one. The macros build one expression or constraint per index;
  \<open>Min\<close> is the sense \<open>minimize\<close>. Inside the macros a \<open>sum\<close> is the sum of the
  generated terms.
\<close>

definition build_uc_model_jl ::
  "(string \<Rightarrow> error + 'a UnitCommitmentData_scheme) \<Rightarrow>
   'a UnitCommitmentData_scheme data_arg \<Rightarrow> error + JumpModel" where
  "build_uc_model_jl read_jld2 arg =
     bind_res (case arg of Path p \<Rightarrow> read_jld2 p | Data d \<Rightarrow> Inr d) (\<lambda>data.
     let G = [1..<Suc (length (pmin data))] in
     bind_res (for_each (\<lambda>g.
         bind_res (getindex (cfix data) g) (\<lambda>cf.
         bind_res (getindex (cvar data) g) (\<lambda>cv.
         Inr (Plus (Times cf (V (X g))) (Times cv (V (Y g))))))) G) (\<lambda>terms.
     bind_res (for_each (\<lambda>g.
         bind_res (getindex (pmax data) g) (\<lambda>pmax_g.
         Inr (Le (V (Y g)) (Times pmax_g (V (X g)))))) G) (\<lambda>eq_max_power.
     bind_res (for_each (\<lambda>g.
         bind_res (getindex (pmin data) g) (\<lambda>pmin_g.
         Inr (Ge (V (Y g)) (Times pmin_g (V (X g)))))) G) (\<lambda>eq_min_power.
     Inr (JumpModel
       \<lparr>jl_optimizer = ''Gurobi.Optimizer'',
        jl_x = Variables G Bin, jl_y = Variables G (LowerBound 0),
        jl_objective = Objective (SumOf terms) minimize,
        jl_eq_max_power = eq_max_power, jl_eq_min_power = eq_min_power,
        jl_eq_demand = Eq (SumOf (map (\<lambda>g. V (Y g)) G)) (Num (demand data))\<rparr>)))))"

section \<open>What a model means\<close>

text \<open>
  An assignment gives every decision variable a value. It is feasible for a model when
  each declared variable lies in its domain and every constraint holds.
\<close>

fun eval :: "(var \<Rightarrow> real) \<Rightarrow> expr \<Rightarrow> real" where
  "eval a (Num c) = c"
| "eval a (V v) = a v"
| "eval a (Times c e) = c * eval a e"
| "eval a (Plus e1 e2) = eval a e1 + eval a e2"
| "eval a (SumOf es) = sum_list (map (eval a) es)"

fun holds :: "(var \<Rightarrow> real) \<Rightarrow> relation \<Rightarrow> bool" where
  "holds a (Le l r) = (eval a l \<le> eval a r)"
| "holds a (Ge l r) = (eval a l \<ge> eval a r)"
| "holds a (Eq l r) = (eval a l = eval a r)"

fun in_domain :: "domain \<Rightarrow> real \<Rightarrow> bool" where
  "in_domain Binary v = (v = 0 \<or> v = 1)"
| "in_domain NonNegativeReals v = (0 \<le> v)"

fun admits :: "var_info \<Rightarrow> real \<Rightarrow> bool" where
  "admits Bin v = (v = 0 \<or> v = 1)"
| "admits (LowerBound l) v = (l \<le> v)"

definition feasible :: "ConcreteModel \<Rightarrow> (var \<Rightarrow> real) \<Rightarrow> bool" where
  "feasible m a =
     (list_all (\<lambda>i. in_domain (domain_of (model_x m)) (a (X i))) (indices (model_x m)) \<and>
      list_all (\<lambda>i. in_domain (domain_of (model_y m)) (a (Y i))) (indices (model_y m)) \<and>
      list_all (holds a) (model_eq_max_power m) \<and>
      list_all (holds a) (model_eq_min_power m) \<and>
      holds a (model_eq_demand m))"

definition feasible_jl :: "JuMP_Model \<Rightarrow> (var \<Rightarrow> real) \<Rightarrow> bool" where
  "feasible_jl m a =
     (list_all (\<lambda>g. admits (jl_info (jl_x m)) (a (X g))) (jl_indices (jl_x m)) \<and>
      list_all (\<lambda>g. admits (jl_info (jl_y m)) (a (Y g))) (jl_indices (jl_y m)) \<and>
      list_all (holds a) (jl_eq_max_power m) \<and>
      list_all (holds a) (jl_eq_min_power m) \<and>
      holds a (jl_eq_demand m))"

text \<open>
  Renaming the variables of an expression: the Julia indices are the Python indices
  plus one.
\<close>

fun shift_var :: "var \<Rightarrow> var" where
  "shift_var (X i) = X (Suc i)"
| "shift_var (Y i) = Y (Suc i)"

fun shift :: "expr \<Rightarrow> expr" where
  "shift (Num c) = Num c"
| "shift (V v) = V (shift_var v)"
| "shift (Times c e) = Times c (shift e)"
| "shift (Plus e1 e2) = Plus (shift e1) (shift e2)"
| "shift (SumOf es) = SumOf (map shift es)"

fun shift_relation :: "relation \<Rightarrow> relation" where
  "shift_relation (Le l r) = Le (shift l) (shift r)"
| "shift_relation (Ge l r) = Ge (shift l) (shift r)"
| "shift_relation (Eq l r) = Eq (shift l) (shift r)"

fun shift_objective :: "objective \<Rightarrow> objective" where
  "shift_objective (Objective e s) = Objective (shift e) s"

text \<open>A reader for a file system that holds no data file.\<close>

definition no_files :: "string \<Rightarrow> error + UnitCommitmentData" where
  "no_files p = Inl FileNotFoundError"

section \<open>The random instance generators\<close>

text \<open>
  A seeded generator is the sequence of unit-interval variates it is going to produce;
  a draw consumes a prefix of it. Seeding belongs to the libraries and is a parameter:
  it yields the sequence, or the error of a seed the library refuses.
\<close>

type_synonym rng = "nat \<Rightarrow> real"

definition unit_interval :: "rng \<Rightarrow> bool" where
  "unit_interval g = (\<forall>k. 0 \<le> g k \<and> g k \<le> 1)"

text \<open>
  \<open>uniform(loc, scale).rvs(size)\<close> of scipy: \<open>size\<close> variates, each scaled into
  \<open>[loc, loc + scale]\<close>; a negative size is a ValueError. Without a size it is one
  number.
\<close>

definition rvs :: "real \<Rightarrow> real \<Rightarrow> int \<Rightarrow> rng \<Rightarrow> error + (real list \<times> rng)" where
  "rvs loc scale sz g =
     (if sz < 0 then Inl ValueError
      else Inr (map (\<lambda>k. loc + scale * g k) [0..<nat sz], \<lambda>k. g (nat sz + k)))"

definition rvs_scalar :: "real \<Rightarrow> real \<Rightarrow> rng \<Rightarrow> real \<times> rng" where
  "rvs_scalar loc scale g = (loc + scale * g 0, \<lambda>k. g (Suc k))"

text \<open>
  The list comprehension of \<open>random_uc_data\<close>: one record for each of the
  \<open>samples\<close> rounds, each drawing its own demand factor.
\<close>

fun sample_records ::
  "nat \<Rightarrow> real list \<Rightarrow> real list \<Rightarrow> real list \<Rightarrow> real list \<Rightarrow> rng \<Rightarrow>
   UnitCommitmentData list" where
  "sample_records 0 pmin' pmax' cfix' cvar' g = []"
| "sample_records (Suc k) pmin' pmax' cfix' cvar' g =
     (case rvs_scalar 0.5 0.25 g of (u, g') \<Rightarrow>
        \<lparr>demand = sum_list pmax' * u,
         pmin = pmin', pmax = pmax', cfix = cfix', cvar = cvar'\<rparr>
        # sample_records k pmin' pmax' cfix' cvar' g')"

text \<open>
  \<open>random_uc_data\<close> of the Pyomo tutorial. \<open>np_random_seed\<close> stands for
  \<open>np.random.seed(seed)\<close>, the generator from which scipy draws; \<open>random.seed(seed)\<close>
  seeds Python's own generator, from which nothing is drawn. The arrays are multiplied
  elementwise, and \<open>range(samples)\<close> is empty for a negative number.
\<close>

definition random_uc_data ::
  "(int \<Rightarrow> error + rng) \<Rightarrow> int \<Rightarrow> int \<Rightarrow> int \<Rightarrow> error + UnitCommitmentData list" where
  "random_uc_data np_random_seed samples n seed =
     bind_res (np_random_seed seed) (\<lambda>g0.
     bind_res (rvs 100000 400000 n g0) (\<lambda>(pmin', g1).
     bind_res (rvs 2.0 2.5 n g1) (\<lambda>(f, g2).
     let pmax' = map2 (*) pmin' f in
     bind_res (rvs 100.0 25.0 n g2) (\<lambda>(h, g3).
     let cfix' = map2 (*) pmin' h in
     bind_res (rvs 1.25 0.25 n g3) (\<lambda>(cvar', g4).
     Inr (sample_records (nat samples) pmin' pmax' cfix' cvar' g4))))))"

text \<open>
  The Julia generator: \<open>rand(Uniform(a, b), n)\<close> draws \<open>n\<close> variates scaled into
  \<open>[a, b]\<close>, and refuses a negative \<open>n\<close>.
\<close>

definition rand_Uniform :: "real \<Rightarrow> real \<Rightarrow> int \<Rightarrow> rng \<Rightarrow> error + (real list \<times> rng)" where
  "rand_Uniform a b n g =
     (if n < 0 then Inl ArgumentError
      else Inr (map (\<lambda>k. a + (b - a) * g k) [0..<nat n], \<lambda>k. g (nat n + k)))"

definition rand_Uniform_scalar :: "real \<Rightarrow> real \<Rightarrow> rng \<Rightarrow> real \<times> rng" where
  "rand_Uniform_scalar a b g = (a + (b - a) * g 0, \<lambda>k. g (Suc k))"

fun sample_records_jl ::
  "nat \<Rightarrow> real list \<Rightarrow> real list \<Rightarrow> real list \<Rightarrow> real list \<Rightarrow> rng \<Rightarrow>
   UnitCommitmentData list" where
  "sample_records_jl 0 pmin' pmax' cfix' cvar' g = []"
| "sample_records_jl (Suc k) pmin' pmax' cfix' cvar' g =
     (case rand_Uniform_scalar 0.5 0.75 g of (u, g') \<Rightarrow>
        \<lparr>demand = sum_list pmax' * u,
         pmin = pmin', pmax = pmax', cfix = cfix', cvar = cvar'\<rparr>
        # sample_records_jl k pmin' pmax' cfix' cvar' g')"

definition random_uc_data_jl ::
  "(int \<Rightarrow> error + rng) \<Rightarrow> int \<Rightarrow> int \<Rightarrow> int \<Rightarrow> error + UnitCommitmentData list" where
  "random_uc_data_jl Random_seed samples n seed =
     bind_res (Random_seed seed) (\<lambda>g0.
     bind_res (rand_Uniform 100000 500000 n g0) (\<lambda>(pmin', g1).
     bind_res (rand_Uniform 2 2.5 n g1) (\<lambda>(f, g2).
     let pmax' = map2 (*) pmin' f in
     bind_res (rand_Uniform 100 125 n g2) (\<lambda>(h, g3).
     let cfix' = map2 (*) pmin' h in
     bind_res (rand_Uniform 1.25 1.50 n g3) (\<lambda>(cvar', g4).
     Inr (sample_records_jl (nat samples) pmin' pmax' cfix' cvar' g4))))))"

text \<open>
  \<open>np.random.seed(seed)\<close> of numpy: it refuses a seed outside \<open>0 .. 2\<^sup>3\<^sup>2 - 1\<close> with a
  ValueError; for a seed it accepts, the generator is set to the sequence of variates
  that belongs to the seed. \<open>variates\<close> is that sequence, a parameter.
\<close>

definition numpy_random_seed :: "(int \<Rightarrow> rng) \<Rightarrow> int \<Rightarrow> error + rng" where
  "numpy_random_seed variates seed =
     (if 0 \<le> seed \<and> seed < 2 ^ 32 then Inr (variates seed) else Inl ValueError)"

text \<open>A generator whose every variate is one half, whatever the seed.\<close>

definition halves :: "int \<Rightarrow> error + rng" where
  "halves seed = Inr (\<lambda>k. 1 / 2)"

definition half_variates :: "int \<Rightarrow> rng" where
  "half_variates seed k = 1 / 2"

section \<open>The formulation of the tutorials\<close>

text \<open>
  The tutorials state the problem before they code it: minimize the sum over the
  generators of \<open>cfix\<^sub>i x\<^sub>i + cvar\<^sub>i y\<^sub>i\<close> subject to \<open>y\<^sub>i \<le> pmax\<^sub>i x\<^sub>i\<close>,
  \<open>y\<^sub>i \<ge> pmin\<^sub>i x\<^sub>i\<close>, \<open>\<Sum> y\<^sub>i = d\<close>, with \<open>x\<^sub>i\<close> binary and \<open>y\<^sub>i \<ge> 0\<close>.
  \<open>uc_formulation\<close> writes this program with the generators numbered from zero,
  as a Pyomo model; \<open>uc_formulation_jl\<close> with the generators numbered from one, as a
  JuMP model. The builders are compared with them below.
\<close>

definition uc_formulation :: "'a UnitCommitmentData_scheme \<Rightarrow> ConcreteModel" where
  "uc_formulation d = (let n = length (pmin d) in
     \<lparr>model_x = Var [0..<n] Binary,
      model_y = Var [0..<n] NonNegativeReals,
      model_obj = Objective (SumOf (map (\<lambda>i.
          Plus (Times (cfix d ! i) (V (X i))) (Times (cvar d ! i) (V (Y i)))) [0..<n])) minimize,
      model_eq_max_power = map (\<lambda>i. Le (V (Y i)) (Times (pmax d ! i) (V (X i)))) [0..<n],
      model_eq_min_power = map (\<lambda>i. Ge (V (Y i)) (Times (pmin d ! i) (V (X i)))) [0..<n],
      model_eq_demand = Eq (SumOf (map (\<lambda>i. V (Y i)) [0..<n])) (Num (demand d))\<rparr>)"

definition uc_formulation_jl :: "'a UnitCommitmentData_scheme \<Rightarrow> JuMP_Model" where
  "uc_formulation_jl d = (let G = [1..<Suc (length (pmin d))] in
     \<lparr>jl_optimizer = ''Gurobi.Optimizer'',
      jl_x = Variables G Bin,
      jl_y = Variables G (LowerBound 0),
      jl_objective = Objective (SumOf (map (\<lambda>g.
          Plus (Times (cfix d ! (g - 1)) (V (X g))) (Times (cvar d ! (g - 1)) (V (Y g)))) G))
          minimize,
      jl_eq_max_power = map (\<lambda>g. Le (V (Y g)) (Times (pmax d ! (g - 1)) (V (X g)))) G,
      jl_eq_min_power = map (\<lambda>g. Ge (V (Y g)) (Times (pmin d ! (g - 1)) (V (X g)))) G,
      jl_eq_demand = Eq (SumOf (map (\<lambda>g. V (Y g)) G)) (Num (demand d))\<rparr>)"


section \<open>Properties of the Pyomo builder\<close>

subsection \<open>Results and loops\<close>

lemma bind_res_Inr [simp]: "bind_res (Inr v) f = f v"
  by (simp add: bind_res_def)

lemma bind_res_Inl [simp]: "bind_res (Inl e) f = Inl e"
  by (simp add: bind_res_def)

lemma for_each_all_Inr:
  "(\<And>i. i \<in> set js \<Longrightarrow> f i = Inr (g i)) \<Longrightarrow> for_each f js = Inr (map g js)"
  by (induction js) simp_all

lemma for_each_first_Inl:
  assumes "i \<in> set js" and "f i = Inl e"
    and "\<And>k. k \<in> set js \<Longrightarrow> f k = Inl e \<or> (\<exists>v. f k = Inr v)"
  shows "for_each f js = Inl e"
  using assms
proof (induction js)
  case Nil
  then show ?case by simp
next
  case (Cons j js)
  from Cons.prems(3) [of j] consider "f j = Inl e" | v where "f j = Inr v" by auto
  then show ?case
  proof cases
    case 1
    then show ?thesis by simp
  next
    case 2
    with Cons.prems have "i \<in> set js" by auto
    with Cons have "for_each f js = Inl e" by simp
    with 2 show ?thesis by simp
  qed
qed

subsection \<open>What the builder returns\<close>

lemma py_sum_nonempty: "es \<noteq> [] \<Longrightarrow> py_sum es = SumOf es"
  by (cases es) simp_all

text \<open>
  With at least one generator, and no list shorter than \<open>pmin\<close>, the builder returns
  the formulation, wrapped for Gurobi.
\<close>

lemma build_uc_model_Data:
  assumes "0 < length (pmin d)"
    and "length (pmin d) \<le> length (pmax d)"
    and "length (pmin d) \<le> length (cfix d)"
    and "length (pmin d) \<le> length (cvar d)"
  shows "build_uc_model rd (Data d) = Inr (PyomoModel (uc_formulation d) ''gurobi_persistent'')"
proof -
  let ?n = "length (pmin d)"
  have terms: "for_each (\<lambda>i.
         bind_res (getitem (cfix d) i) (\<lambda>cf.
         bind_res (getitem (cvar d) i) (\<lambda>cv.
         Inr (Plus (Times cf (V (X i))) (Times cv (V (Y i))))))) [0..<?n]
       = Inr (map (\<lambda>i. Plus (Times (cfix d ! i) (V (X i))) (Times (cvar d ! i) (V (Y i)))) [0..<?n])"
    using assms by (intro for_each_all_Inr) (simp add: getitem_def)
  have cs: "for_each (\<lambda>i.
         bind_res (getitem (pmax d) i) (\<lambda>pmax_i.
         bind_res (pe_Constraint (py_le (V (Y i)) (Times pmax_i (V (X i))))) (\<lambda>c_max.
         bind_res (getitem (pmin d) i) (\<lambda>pmin_i.
         bind_res (pe_Constraint (py_ge (V (Y i)) (Times pmin_i (V (X i))))) (\<lambda>c_min.
         Inr (c_max, c_min)))))) [0..<?n]
       = Inr (map (\<lambda>i. (Le (V (Y i)) (Times (pmax d ! i) (V (X i))),
                        Ge (V (Y i)) (Times (pmin d ! i) (V (X i))))) [0..<?n])"
    using assms by (intro for_each_all_Inr) (simp add: getitem_def)
  have ne: "[0..<?n] \<noteq> []" using assms(1) by simp
  show ?thesis
    unfolding build_uc_model_def
    apply (simp only: Let_def data_arg.case bind_res_Inr terms cs)
    using ne apply (simp add: py_sum_nonempty pe_Objective_def uc_formulation_def o_def Let_def)
    done
qed


text \<open>
  Without a generator the sum of the demand constraint is the number \<open>0\<close>, its
  comparison with the demand is a Boolean, and the constraint is refused.
\<close>

lemma build_uc_model_empty:
  "pmin d = [] \<Longrightarrow> build_uc_model rd (Data d) = Inl ValueError"
  by (simp add: build_uc_model_def)

text \<open>A list shorter than \<open>pmin\<close> is read out of range.\<close>

lemma build_uc_model_short:
  assumes "length (pmax d) < length (pmin d) \<or> length (cfix d) < length (pmin d)
           \<or> length (cvar d) < length (pmin d)"
  shows "build_uc_model rd (Data d) = Inl IndexError"
proof (cases "length (cfix d) < length (pmin d) \<or> length (cvar d) < length (pmin d)")
  case True
  let ?i = "min (length (cfix d)) (length (cvar d))"
  let ?f = "\<lambda>i. bind_res (getitem (cfix d) i) (\<lambda>cf.
         bind_res (getitem (cvar d) i) (\<lambda>cv.
         Inr (Plus (Times cf (V (X i))) (Times cv (V (Y i))))))"
  have "?i \<in> set [0..<length (pmin d)]" using True by auto
  moreover have "?f ?i = Inl IndexError" by (auto simp: getitem_def)
  moreover have "\<And>k. ?f k = Inl IndexError \<or> (\<exists>v. ?f k = Inr v)"
    by (auto simp: getitem_def)
  ultimately have "for_each ?f [0..<length (pmin d)] = Inl IndexError"
    by (rule for_each_first_Inl)
  then show ?thesis
    unfolding build_uc_model_def by (simp only: Let_def data_arg.case bind_res_Inr bind_res_Inl)
next
  case False
  with assms have short: "length (pmax d) < length (pmin d)" by simp
  let ?n = "length (pmin d)"
  have terms: "for_each (\<lambda>i.
         bind_res (getitem (cfix d) i) (\<lambda>cf.
         bind_res (getitem (cvar d) i) (\<lambda>cv.
         Inr (Plus (Times cf (V (X i))) (Times cv (V (Y i))))))) [0..<?n]
       = Inr (map (\<lambda>i. Plus (Times (cfix d ! i) (V (X i))) (Times (cvar d ! i) (V (Y i)))) [0..<?n])"
    using False by (intro for_each_all_Inr) (simp add: getitem_def)
  let ?g = "\<lambda>i.
         bind_res (getitem (pmax d) i) (\<lambda>pmax_i.
         bind_res (pe_Constraint (py_le (V (Y i)) (Times pmax_i (V (X i))))) (\<lambda>c_max.
         bind_res (getitem (pmin d) i) (\<lambda>pmin_i.
         bind_res (pe_Constraint (py_ge (V (Y i)) (Times pmin_i (V (X i))))) (\<lambda>c_min.
         Inr (c_max, c_min)))))"
  have "length (pmax d) \<in> set [0..<?n]" using short by simp
  moreover have "?g (length (pmax d)) = Inl IndexError" by (simp add: getitem_def)
  moreover have "\<And>k. k \<in> set [0..<?n] \<Longrightarrow> ?g k = Inl IndexError \<or> (\<exists>v. ?g k = Inr v)"
    by (auto simp: getitem_def)
  ultimately have "for_each ?g [0..<?n] = Inl IndexError"
    by (rule for_each_first_Inl)
  then show ?thesis
    unfolding build_uc_model_def
    by (simp only: Let_def data_arg.case bind_res_Inr bind_res_Inl terms)
qed


text \<open>A path is read, then built like the data it holds.\<close>

lemma build_uc_model_Path:
  "build_uc_model rd (Path p) = bind_res (rd p) (\<lambda>d. build_uc_model rd (Data d))"
  by (simp add: build_uc_model_def)

lemma uc_formulation_take:
  "uc_formulation (d\<lparr>pmax := take (length (pmin d)) (pmax d),
                      cfix := take (length (pmin d)) (cfix d),
                      cvar := take (length (pmin d)) (cvar d)\<rparr>) = uc_formulation d"
  by (simp add: uc_formulation_def Let_def cong: map_cong)




text \<open>
  Claim C2. For every record in which the \<open>pmax\<close>, \<open>cfix\<close> and \<open>cvar\<close> lists are
  each at least as long as \<open>pmin\<close>, \<open>build_uc_model\<close> reads no list out of range:
  every read of the four lists, at an index below the length of \<open>pmin\<close>, is within the
  list, and the builder does not raise IndexError. Nothing checks that the four lists
  have equal length: the builder treats such a record exactly as the record whose three
  lists are cut to the length of \<open>pmin\<close>.
\<close>

theorem build_uc_model_index_safe:
  assumes "length (pmin d) \<le> length (pmax d)"
    and "length (pmin d) \<le> length (cfix d)"
    and "length (pmin d) \<le> length (cvar d)"
  shows "(\<forall>i \<in> set [0..<length (pmin d)].
        getitem (cfix d) i = Inr (cfix d ! i) \<and> getitem (cvar d) i = Inr (cvar d ! i)
        \<and> getitem (pmax d) i = Inr (pmax d ! i) \<and> getitem (pmin d) i = Inr (pmin d ! i))
    \<and> build_uc_model rd (Data d) \<noteq> Inl IndexError
    \<and> build_uc_model rd (Data d) =
        build_uc_model rd
          (Data (d\<lparr>pmax := take (length (pmin d)) (pmax d),
                    cfix := take (length (pmin d)) (cfix d),
                    cvar := take (length (pmin d)) (cvar d)\<rparr>))"
proof (cases "pmin d = []")
  case True
  then show ?thesis by (simp add: build_uc_model_empty)
next
  case False
  then have pos: "0 < length (pmin d)" by simp
  have full: "build_uc_model rd (Data d)
      = Inr (PyomoModel (uc_formulation d) ''gurobi_persistent'')"
    using pos assms by (rule build_uc_model_Data)
  let ?t = "d\<lparr>pmax := take (length (pmin d)) (pmax d),
               cfix := take (length (pmin d)) (cfix d),
               cvar := take (length (pmin d)) (cvar d)\<rparr>"
  have "build_uc_model rd (Data ?t) = Inr (PyomoModel (uc_formulation ?t) ''gurobi_persistent'')"
    using pos assms by (intro build_uc_model_Data) simp_all
  with full assms show ?thesis by (simp add: uc_formulation_take getitem_def)
qed

text \<open>A record with lists of three different lengths is built without complaint.\<close>

theorem build_uc_model_index_safe_witness:
  "length [10 :: real] \<le> length [50, 60 :: real]
   \<and> length [10 :: real] \<le> length [700, 600, 500 :: real]
   \<and> length [10 :: real] \<le> length [1.5 :: real]
   \<and> getitem [700, 600, 500 :: real] 0 = Inr 700
   \<and> getitem [50, 60 :: real] 0 = Inr 50
   \<and> build_uc_model no_files
        (Data \<lparr>demand = 30, pmin = [10], pmax = [50, 60], cfix = [700, 600, 500],
               cvar = [1.5]\<rparr>) \<noteq> Inl IndexError
   \<and> build_uc_model no_files
        (Data \<lparr>demand = 30, pmin = [10], pmax = [50, 60], cfix = [700, 600, 500],
               cvar = [1.5]\<rparr>)
     = build_uc_model no_files
        (Data \<lparr>demand = 30, pmin = [10], pmax = [50], cfix = [700], cvar = [1.5]\<rparr>)"
  using build_uc_model_index_safe
    [of "\<lparr>demand = 30, pmin = [10], pmax = [50, 60], cfix = [700, 600, 500],
          cvar = [1.5]\<rparr>" no_files]
  by (auto simp: getitem_def)

section \<open>Properties of the JuMP builder\<close>

text \<open>With no list shorter than \<open>pmin\<close>, the JuMP builder returns its formulation.\<close>

lemma build_uc_model_jl_Data:
  assumes "length (pmin d) \<le> length (pmax d)"
    and "length (pmin d) \<le> length (cfix d)"
    and "length (pmin d) \<le> length (cvar d)"
  shows "build_uc_model_jl rj (Data d) = Inr (JumpModel (uc_formulation_jl d))"
proof -
  let ?G = "[1..<Suc (length (pmin d))]"
  have terms: "for_each (\<lambda>g.
         bind_res (getindex (cfix d) g) (\<lambda>cf.
         bind_res (getindex (cvar d) g) (\<lambda>cv.
         Inr (Plus (Times cf (V (X g))) (Times cv (V (Y g))))))) ?G
       = Inr (map (\<lambda>g. Plus (Times (cfix d ! (g - 1)) (V (X g)))
                            (Times (cvar d ! (g - 1)) (V (Y g)))) ?G)"
    using assms by (intro for_each_all_Inr) (auto simp: getindex_def)
  have cmax: "for_each (\<lambda>g.
         bind_res (getindex (pmax d) g) (\<lambda>pmax_g.
         Inr (Le (V (Y g)) (Times pmax_g (V (X g)))))) ?G
       = Inr (map (\<lambda>g. Le (V (Y g)) (Times (pmax d ! (g - 1)) (V (X g)))) ?G)"
    using assms by (intro for_each_all_Inr) (auto simp: getindex_def)
  have cmin: "for_each (\<lambda>g.
         bind_res (getindex (pmin d) g) (\<lambda>pmin_g.
         Inr (Ge (V (Y g)) (Times pmin_g (V (X g)))))) ?G
       = Inr (map (\<lambda>g. Ge (V (Y g)) (Times (pmin d ! (g - 1)) (V (X g)))) ?G)"
    using assms by (intro for_each_all_Inr) (auto simp: getindex_def)
  show ?thesis
    unfolding build_uc_model_jl_def
    apply (simp only: Let_def data_arg.case bind_res_Inr terms cmax cmin)
    apply (simp add: uc_formulation_jl_def Let_def)
    done
qed

subsection \<open>The two formulations are one program\<close>

text \<open>
  Renaming generator \<open>i\<close> to \<open>i + 1\<close> turns the Pyomo formulation into the JuMP
  formulation; an assignment of the renamed variables gives every expression and
  constraint the value the original assignment gave it.
\<close>

lemma eval_shift: "eval a (shift e) = eval (a \<circ> shift_var) e"
  by (induction e) (simp_all add: o_def cong: map_cong)

lemma holds_shift: "holds a (shift_relation r) = holds (a \<circ> shift_var) r"
  by (cases r) (simp_all add: eval_shift)

lemma upt_from_one: "[Suc 0..<Suc n] = map Suc [0..<n]"
  by (simp add: map_Suc_upt del: upt_Suc)

lemma uc_formulation_jl_shift:
  "jl_indices (jl_x (uc_formulation_jl d)) = map Suc (indices (model_x (uc_formulation d)))"
  "jl_indices (jl_y (uc_formulation_jl d)) = map Suc (indices (model_y (uc_formulation d)))"
  "jl_info (jl_x (uc_formulation_jl d)) = Bin"
  "jl_info (jl_y (uc_formulation_jl d)) = LowerBound 0"
  "domain_of (model_x (uc_formulation d)) = Binary"
  "domain_of (model_y (uc_formulation d)) = NonNegativeReals"
  "jl_objective (uc_formulation_jl d) = shift_objective (model_obj (uc_formulation d))"
  "jl_eq_max_power (uc_formulation_jl d) = map shift_relation (model_eq_max_power (uc_formulation d))"
  "jl_eq_min_power (uc_formulation_jl d) = map shift_relation (model_eq_min_power (uc_formulation d))"
  "jl_eq_demand (uc_formulation_jl d) = shift_relation (model_eq_demand (uc_formulation d))"
  by (simp_all add: uc_formulation_jl_def uc_formulation_def Let_def upt_from_one o_def
      del: upt_Suc)



lemma feasible_jl_shift:
  "feasible_jl (uc_formulation_jl d) a = feasible (uc_formulation d) (a \<circ> shift_var)"
  unfolding feasible_jl_def feasible_def uc_formulation_jl_shift
  by (simp add: list_all_iff holds_shift)






section \<open>The data that the builders read\<close>

text \<open>
  Claim C8. The unit-commitment data record holds exactly one scalar \<open>demand\<close> and
  the four per-generator lists \<open>pmin\<close>, \<open>pmax\<close>, \<open>cfix\<close> and \<open>cvar\<close>: a record is
  determined by these five fields. They are the only problem data that the model
  builders read: whatever else a data object carries, each builder returns what it
  returns for the plain record with the same five fields.
\<close>

theorem builders_read_five_fields:
  fixes d :: "'a UnitCommitmentData_scheme" and r :: UnitCommitmentData
  shows "r = \<lparr>demand = demand r, pmin = pmin r, pmax = pmax r, cfix = cfix r, cvar = cvar r\<rparr>
    \<and> build_uc_model rd (Data d) =
        build_uc_model no_files
          (Data \<lparr>demand = demand d, pmin = pmin d, pmax = pmax d,
                 cfix = cfix d, cvar = cvar d\<rparr>)
    \<and> build_uc_model_jl rj (Data d) =
        build_uc_model_jl no_files
          (Data \<lparr>demand = demand d, pmin = pmin d, pmax = pmax d,
                 cfix = cfix d, cvar = cvar d\<rparr>)"
  by (simp add: build_uc_model_def build_uc_model_jl_def)

text \<open>A data object that carries a note besides the five fields.\<close>

theorem builders_read_five_fields_witness:
  "build_uc_model (\<lambda>p. Inl FileNotFoundError)
     (Data \<lparr>demand = 30, pmin = [10], pmax = [50], cfix = [700], cvar = [1.5],
            \<dots> = ''note''\<rparr>)
   = build_uc_model no_files
     (Data \<lparr>demand = 30, pmin = [10], pmax = [50], cfix = [700], cvar = [1.5]\<rparr>)"
  using builders_read_five_fields
    [of "\<lparr>demand = 30, pmin = [10], pmax = [50], cfix = [700], cvar = [1.5]\<rparr>"
        "\<lambda>p. Inl FileNotFoundError"
        "\<lparr>demand = 30, pmin = [10], pmax = [50], cfix = [700], cvar = [1.5],
          \<dots> = ''note''\<rparr>"]
  by simp

section \<open>Properties of the random instance generator\<close>

subsection \<open>Draws\<close>

lemma rvs_Inr:
  "0 \<le> n \<Longrightarrow> rvs loc scale n g
     = Inr (map (\<lambda>k. loc + scale * g k) [0..<nat n], \<lambda>k. g (nat n + k))"
  by (simp add: rvs_def)

lemma rvs_negative: "n < 0 \<Longrightarrow> rvs loc scale n g = Inl ValueError"
  by (simp add: rvs_def)

lemma unit_interval_drop: "unit_interval g \<Longrightarrow> unit_interval (\<lambda>k. g (m + k))"
  by (simp add: unit_interval_def)

lemma unit_interval_Suc: "unit_interval g \<Longrightarrow> unit_interval (\<lambda>k. g (Suc k))"
  by (simp add: unit_interval_def)

lemma scaled_bounds:
  assumes "unit_interval g" and "0 \<le> scale"
  shows "loc \<le> loc + scale * g k" and "loc + scale * g k \<le> loc + scale"
proof -
  from assms(1) have g: "0 \<le> g k" "g k \<le> 1" by (simp_all add: unit_interval_def)
  from g(1) assms(2) show "loc \<le> loc + scale * g k" by simp
  from g(2) assms(2) have "scale * g k \<le> scale * 1" by (rule mult_left_mono)
  then show "loc + scale * g k \<le> loc + scale" by simp
qed

subsection \<open>The records of one call\<close>

lemma length_sample_records [simp]:
  "length (sample_records k pm px cf cv g) = k"
  by (induction k arbitrary: g) (simp_all add: rvs_scalar_def)

lemma sample_records_fields:
  "r \<in> set (sample_records k pm px cf cv g) \<Longrightarrow>
     pmin r = pm \<and> pmax r = px \<and> cfix r = cf \<and> cvar r = cv"
  by (induction k arbitrary: g) (auto simp: rvs_scalar_def)

lemma sample_records_demand:
  "unit_interval g \<Longrightarrow> r \<in> set (sample_records k pm px cf cv g) \<Longrightarrow>
     \<exists>u. 1 / 2 \<le> u \<and> u \<le> 3 / 4 \<and> demand r = sum_list px * u"
proof (induction k arbitrary: g)
  case 0
  then show ?case by simp
next
  case (Suc k)
  from Suc.prems(2) consider
    "r = \<lparr>demand = sum_list px * (0.5 + 0.25 * g 0), pmin = pm, pmax = px, cfix = cf, cvar = cv\<rparr>"
    | "r \<in> set (sample_records k pm px cf cv (\<lambda>k. g (Suc k)))"
    by (auto simp: rvs_scalar_def)
  then show ?case
  proof cases
    case 1
    have "(0.5::real) \<le> 0.5 + 0.25 * g 0" "0.5 + 0.25 * g 0 \<le> 0.5 + (0.25::real)"
      using scaled_bounds [OF Suc.prems(1), of "0.25" "0.5" 0] by simp_all
    with 1 show ?thesis by (intro exI [of _ "0.5 + 0.25 * g 0"]) simp
  next
    case 2
    with Suc.IH [OF unit_interval_Suc [OF Suc.prems(1)]] show ?thesis by simp
  qed
qed

text \<open>
  With a size that is not negative and a seed that the library accepts, the generator
  returns: the four lists are drawn once, before the records.
\<close>

lemma random_uc_data_Inr:
  assumes "0 \<le> n" and "np_random_seed seed = Inr g"
  shows "random_uc_data np_random_seed samples n seed =
    Inr (sample_records (nat samples)
      (map (\<lambda>k. 100000 + 400000 * g k) [0..<nat n])
      (map2 (*) (map (\<lambda>k. 100000 + 400000 * g k) [0..<nat n])
                (map (\<lambda>k. 2 + 2.5 * g (nat n + k)) [0..<nat n]))
      (map2 (*) (map (\<lambda>k. 100000 + 400000 * g k) [0..<nat n])
                (map (\<lambda>k. 100 + 25 * g (nat n + (nat n + k))) [0..<nat n]))
      (map (\<lambda>k. 1.25 + 0.25 * g (nat n + (nat n + (nat n + k)))) [0..<nat n])
      (\<lambda>k. g (nat n + (nat n + (nat n + (nat n + k))))))"
  using assms by (simp add: random_uc_data_def rvs_Inr Let_def)


text \<open>Every \<open>pmin\<close> is at least 100000, and every \<open>pmax\<close> at least twice its \<open>pmin\<close>.\<close>

lemma generated_lists:
  fixes g :: rng and N :: nat
  assumes "unit_interval g"
  defines "pm \<equiv> map (\<lambda>k. 100000 + 400000 * g k) [0..<N]"
    and "px \<equiv> map2 (*) (map (\<lambda>k. 100000 + 400000 * g k) [0..<N])
                        (map (\<lambda>k. 2 + 2.5 * g (N + k)) [0..<N])"
  shows "length pm = N" and "length px = N"
    and "\<And>i. i < N \<Longrightarrow> 100000 \<le> pm ! i"
    and "\<And>i. i < N \<Longrightarrow> 2 * pm ! i \<le> px ! i"
proof -
  show "length pm = N" "length px = N" by (simp_all add: pm_def px_def)
  show lo: "100000 \<le> pm ! i" if "i < N" for i
    using that scaled_bounds(1) [OF assms(1), of 400000 100000 i] by (simp add: pm_def)
  show "2 * pm ! i \<le> px ! i" if "i < N" for i
  proof -
    have "0 \<le> pm ! i" using lo [OF that] by simp
    moreover have "(2::real) \<le> 2 + 2.5 * g (N + i)"
      using scaled_bounds(1) [OF assms(1), of "2.5" 2 "N + i"] by simp
    ultimately have "pm ! i * 2 \<le> pm ! i * (2 + 2.5 * g (N + i))"
      by (rule mult_left_mono [rotated])
    with that show ?thesis by (simp add: pm_def px_def mult.commute)
  qed
qed

subsection \<open>Sums and interpolation\<close>

lemma sum_list_scaled_le:
  fixes xs ys :: "real list"
  assumes "length xs = length ys" and "\<And>i. i < length xs \<Longrightarrow> c * xs ! i \<le> ys ! i"
  shows "c * sum_list xs \<le> sum_list ys"
  using assms
proof (induction xs ys rule: list_induct2)
  case Nil
  then show ?case by simp
next
  case (Cons x xs y ys)
  have "c * x \<le> y" using Cons.prems [of 0] by simp
  moreover have "c * sum_list xs \<le> sum_list ys"
    using Cons.prems [of "Suc i" for i] by (intro Cons.IH) simp
  ultimately show ?case by (simp add: distrib_left)
qed

lemma sum_list_blend:
  fixes lo hi :: "real list"
  assumes "length lo = length hi"
  shows "sum_list (map2 (\<lambda>l h. l + t * (h - l)) lo hi)
    = sum_list lo + t * (sum_list hi - sum_list lo)"
  using assms by (induction lo hi rule: list_induct2) (simp_all add: algebra_simps)

text \<open>
  Between two lists, componentwise, lies a list of any sum between their sums: move
  all components by the same fraction of the way.
\<close>

lemma interpolate:
  fixes lo hi :: "real list"
  assumes len: "length lo = length hi"
    and le: "\<And>i. i < length lo \<Longrightarrow> lo ! i \<le> hi ! i"
    and d: "sum_list lo \<le> d" "d \<le> sum_list hi"
  shows "\<exists>ys. length ys = length lo
    \<and> (\<forall>i<length lo. lo ! i \<le> ys ! i \<and> ys ! i \<le> hi ! i) \<and> sum_list ys = d"
proof -
  define t where "t = (if sum_list hi = sum_list lo then 0
                       else (d - sum_list lo) / (sum_list hi - sum_list lo))"
  define ys where "ys = map2 (\<lambda>l h. l + t * (h - l)) lo hi"
  have t0: "0 \<le> t" using d by (simp add: t_def)
  have t1: "t \<le> 1" using d by (simp add: t_def)
  have sum: "t * (sum_list hi - sum_list lo) = d - sum_list lo"
    using d by (simp add: t_def)
  have "length ys = length lo" using len by (simp add: ys_def)
  moreover have "lo ! i \<le> ys ! i \<and> ys ! i \<le> hi ! i" if "i < length lo" for i
  proof -
    have gap: "0 \<le> hi ! i - lo ! i" using le [OF that] by simp
    have "0 \<le> t * (hi ! i - lo ! i)" using t0 gap by simp
    moreover have "t * (hi ! i - lo ! i) \<le> 1 * (hi ! i - lo ! i)"
      using t1 gap by (rule mult_right_mono)
    moreover have "ys ! i = lo ! i + t * (hi ! i - lo ! i)"
      using that len by (simp add: ys_def)
    ultimately show ?thesis by simp
  qed
  moreover have "sum_list ys = d"
    using sum by (simp add: ys_def sum_list_blend [OF len])
  ultimately show ?thesis by blast
qed

text \<open>
  The formulation is feasible with every generator online as soon as the demand lies
  between the total minimum and the total maximum power.
\<close>

lemma formulation_feasible:
  assumes len: "length (pmax d) = length (pmin d)"
    and bounds: "\<And>i. i < length (pmin d) \<Longrightarrow> 0 \<le> pmin d ! i \<and> pmin d ! i \<le> pmax d ! i"
    and dem: "sum_list (pmin d) \<le> demand d" "demand d \<le> sum_list (pmax d)"
  shows "\<exists>a. feasible (uc_formulation d) a \<and> (\<forall>i. a (X i) = 1)
    \<and> (\<forall>i<length (pmin d). pmin d ! i \<le> a (Y i) \<and> a (Y i) \<le> pmax d ! i)
    \<and> sum_list (map (\<lambda>i. a (Y i)) [0..<length (pmin d)]) = demand d"
proof -
  from interpolate [of "pmin d" "pmax d" "demand d"] len bounds dem
  obtain ys where ys: "length ys = length (pmin d)"
      "\<And>i. i < length (pmin d) \<Longrightarrow> pmin d ! i \<le> ys ! i \<and> ys ! i \<le> pmax d ! i"
      "sum_list ys = demand d"
    by auto
  define a where "a = (\<lambda>v. case v of X i \<Rightarrow> 1 | Y i \<Rightarrow> ys ! i)"
  have [simp]: "a (X i) = 1" "a (Y i) = ys ! i" for i by (simp_all add: a_def)
  have total: "sum_list (map (\<lambda>i. ys ! i) [0..<length (pmin d)]) = demand d"
    using ys(1,3) by (metis map_nth)
  have nonneg: "0 \<le> ys ! i" if "i < length (pmin d)" for i
    using bounds [OF that] ys(2) [OF that] by simp
  have "feasible (uc_formulation d) a"
    using ys(2) nonneg total
    by (simp add: feasible_def uc_formulation_def Let_def list_all_iff o_def)
  with ys(2) total show ?thesis by (intro exI [of _ a]) simp
qed


subsection \<open>The records and their demands\<close>

text \<open>
  Once the seeding has succeeded, whatever the library that seeds: the call returns
  \<open>samples\<close> records that share the four arrays, with demands between half and three
  quarters of the total maximum power.
\<close>

lemma random_uc_data_seeded:
  assumes "1 \<le> samples" and "1 \<le> n"
    and "np_random_seed seed = Inr g" and "unit_interval g"
  shows "\<exists>rs pm px cf cv. random_uc_data np_random_seed samples n seed = Inr rs
    \<and> int (length rs) = samples
    \<and> int (length pm) = n \<and> int (length px) = n
    \<and> int (length cf) = n \<and> int (length cv) = n
    \<and> (\<forall>r \<in> set rs. pmin r = pm \<and> pmax r = px \<and> cfix r = cf \<and> cvar r = cv
          \<and> 0.5 * sum_list px \<le> demand r \<and> demand r \<le> 0.75 * sum_list px)"
proof -
  define N where "N = nat n"
  define pm where "pm = map (\<lambda>k. 100000 + 400000 * g k) [0..<N]"
  define px where "px = map2 (*) (map (\<lambda>k. 100000 + 400000 * g k) [0..<N])
                        (map (\<lambda>k. 2 + 2.5 * g (N + k)) [0..<N])"
  define cf where "cf = map2 (*) (map (\<lambda>k. 100000 + 400000 * g k) [0..<N])
                        (map (\<lambda>k. 100 + 25 * g (N + (N + k))) [0..<N])"
  define cv where "cv = map (\<lambda>k. 1.25 + 0.25 * g (N + (N + (N + k)))) [0..<N]"
  define g4 where "g4 = (\<lambda>k. g (N + (N + (N + (N + k)))))"
  define rs where "rs = sample_records (nat samples) pm px cf cv g4"
  have run: "random_uc_data np_random_seed samples n seed = Inr rs"
    using assms(2,3) random_uc_data_Inr [of n np_random_seed seed g samples]
    by (simp add: rs_def pm_def px_def cf_def cv_def g4_def N_def)
  have lens: "int (length pm) = n" "int (length px) = n" "int (length cf) = n"
      "int (length cv) = n"
    using assms(2) by (simp_all add: pm_def px_def cf_def cv_def N_def)
  have g4: "unit_interval g4"
    using assms(4) by (simp add: g4_def unit_interval_def)
  have pos: "0 \<le> px ! i" if "i < N" for i
    using generated_lists(3,4) [OF assms(4) that] by (simp add: px_def)
  have "length px = N" by (simp add: px_def)
  with pos have total: "0 \<le> sum_list px"
    by (intro sum_list_nonneg) (auto simp: in_set_conv_nth)
  have each: "pmin r = pm \<and> pmax r = px \<and> cfix r = cf \<and> cvar r = cv
      \<and> 0.5 * sum_list px \<le> demand r \<and> demand r \<le> 0.75 * sum_list px"
    if "r \<in> set rs" for r
  proof -
    from that have fields: "pmin r = pm \<and> pmax r = px \<and> cfix r = cf \<and> cvar r = cv"
      unfolding rs_def by (rule sample_records_fields)
    from that g4 obtain u where u: "1 / 2 \<le> u" "u \<le> 3 / 4" "demand r = sum_list px * u"
      unfolding rs_def using sample_records_demand by blast
    have "sum_list px * (1 / 2) \<le> sum_list px * u"
      using u(1) total by (rule mult_left_mono)
    moreover have "sum_list px * u \<le> sum_list px * (3 / 4)"
      using u(2) total by (rule mult_left_mono)
    ultimately show ?thesis using fields u(3) by simp
  qed
  have "int (length rs) = samples" using assms(1) by (simp add: rs_def)
  with run lens each show ?thesis by blast
qed

text \<open>A seed that numpy refuses is an error of the whole call.\<close>

lemma random_uc_data_seed_refused:
  "seed < 0 \<or> 2 ^ 32 \<le> seed \<Longrightarrow>
     random_uc_data (numpy_random_seed variates) samples n seed = Inl ValueError"
  by (auto simp: random_uc_data_def numpy_random_seed_def)

text \<open>
  Claim C9, amended. For every \<open>samples \<ge> 1\<close>, every \<open>n \<ge> 1\<close> and every seed that
  \<open>np.random.seed\<close> accepts, that is \<open>0 \<le> seed < 2\<^sup>3\<^sup>2\<close> (the default 42 is one),
  \<open>random_uc_data\<close> returns exactly \<open>samples\<close> records; all share the same \<open>pmin\<close>,
  \<open>pmax\<close>, \<open>cfix\<close> and \<open>cvar\<close> arrays, of length \<open>n\<close>, so that only the demand
  differs between records; and every record's demand lies between \<open>0.5\<close> and \<open>0.75\<close>
  times the sum of the \<open>pmax\<close> array. The variates of the seeded generator lie in the
  unit interval.
\<close>

theorem random_uc_data_records:
  assumes "1 \<le> samples" and "1 \<le> n"
    and "0 \<le> seed" and "seed < 2 ^ 32" and "unit_interval (variates seed)"
  shows "\<exists>rs pm px cf cv.
      random_uc_data (numpy_random_seed variates) samples n seed = Inr rs
    \<and> int (length rs) = samples
    \<and> int (length pm) = n \<and> int (length px) = n
    \<and> int (length cf) = n \<and> int (length cv) = n
    \<and> (\<forall>r \<in> set rs. pmin r = pm \<and> pmax r = px \<and> cfix r = cf \<and> cvar r = cv
          \<and> 0.5 * sum_list px \<le> demand r \<and> demand r \<le> 0.75 * sum_list px)"
proof -
  have "numpy_random_seed variates seed = Inr (variates seed)"
    using assms(3,4) by (simp add: numpy_random_seed_def)
  with assms(1,2) show ?thesis
    using assms(5) by (rule random_uc_data_seeded)
qed

text \<open>Two samples of three generators, with the default seed.\<close>

theorem random_uc_data_records_witness:
  "(1::int) \<le> 2 \<and> (1::int) \<le> 3 \<and> (0::int) \<le> 42 \<and> (42::int) < 2 ^ 32
   \<and> unit_interval (half_variates 42)
   \<and> (\<exists>rs pm px cf cv.
        random_uc_data (numpy_random_seed half_variates) 2 3 42 = Inr rs
      \<and> int (length rs) = 2
      \<and> int (length pm) = 3 \<and> int (length px) = 3
      \<and> int (length cf) = 3 \<and> int (length cv) = 3
      \<and> (\<forall>r \<in> set rs. pmin r = pm \<and> pmax r = px \<and> cfix r = cf \<and> cvar r = cv
            \<and> 0.5 * sum_list px \<le> demand r \<and> demand r \<le> 0.75 * sum_list px))"
  using random_uc_data_records [of 2 3 42 half_variates]
  by (simp add: half_variates_def unit_interval_def)

text \<open>
  Claim C9 as it was stated, for every \<open>samples \<ge> 1\<close> and \<open>n \<ge> 1\<close> whatever the
  seed, fails for the seed \<open>-1\<close>: \<open>np.random.seed\<close> refuses it, and the call raises a
  ValueError instead of returning records.
\<close>

theorem random_uc_data_refused_seed_counterexample:
  "random_uc_data (numpy_random_seed half_variates) 1 1 (- 1) = Inl ValueError"
  by (simp add: random_uc_data_def numpy_random_seed_def)


text \<open>
  Claim C10, amended. Every record that \<open>random_uc_data\<close> produces for \<open>n \<ge> 1\<close>
  generators yields a feasible model under \<open>build_uc_model\<close>: each \<open>pmax[i]\<close> is at
  least \<open>2 * pmin[i]\<close>, so the sum of \<open>pmin\<close> is at most half the sum of \<open>pmax\<close>,
  which is at most the demand, which is at most the sum of \<open>pmax\<close>; hence with every
  \<open>x[i] = 1\<close> there are values \<open>y\<close> with \<open>pmin[i] \<le> y[i] \<le> pmax[i]\<close> whose sum is
  the demand, and this assignment satisfies every constraint of the model.
\<close>

theorem random_uc_data_feasible:
  assumes "1 \<le> n"
    and "np_random_seed seed = Inr g" and "unit_interval g"
    and "random_uc_data np_random_seed samples n seed = Inr rs" and "r \<in> set rs"
  shows "(\<forall>i<length (pmin r). 2 * pmin r ! i \<le> pmax r ! i)
    \<and> sum_list (pmin r) \<le> sum_list (pmax r) / 2
    \<and> sum_list (pmax r) / 2 \<le> demand r
    \<and> demand r \<le> sum_list (pmax r)
    \<and> (\<exists>m a. build_uc_model rd (Data r) = Inr (PyomoModel m ''gurobi_persistent'')
        \<and> feasible m a
        \<and> (\<forall>i<length (pmin r). a (X i) = 1
              \<and> pmin r ! i \<le> a (Y i) \<and> a (Y i) \<le> pmax r ! i)
        \<and> sum_list (map (\<lambda>i. a (Y i)) [0..<length (pmin r)]) = demand r)"
proof -
  define N where "N = nat n"
  define pm where "pm = map (\<lambda>k. 100000 + 400000 * g k) [0..<N]"
  define px where "px = map2 (*) (map (\<lambda>k. 100000 + 400000 * g k) [0..<N])
                        (map (\<lambda>k. 2 + 2.5 * g (N + k)) [0..<N])"
  define cf where "cf = map2 (*) (map (\<lambda>k. 100000 + 400000 * g k) [0..<N])
                        (map (\<lambda>k. 100 + 25 * g (N + (N + k))) [0..<N])"
  define cv where "cv = map (\<lambda>k. 1.25 + 0.25 * g (N + (N + (N + k)))) [0..<N]"
  define g4 where "g4 = (\<lambda>k. g (N + (N + (N + (N + k)))))"
  have "random_uc_data np_random_seed samples n seed
      = Inr (sample_records (nat samples) pm px cf cv g4)"
    using assms(1,2) random_uc_data_Inr [of n np_random_seed seed g samples]
    by (simp add: pm_def px_def cf_def cv_def g4_def N_def)
  with assms(4,5) have mem: "r \<in> set (sample_records (nat samples) pm px cf cv g4)"
    by simp
  then have fields: "pmin r = pm" "pmax r = px" "cfix r = cf" "cvar r = cv"
    using sample_records_fields by blast+
  have lens: "length pm = N" "length px = N" "length cf = N" "length cv = N"
    by (simp_all add: pm_def px_def cf_def cv_def)
  have N: "0 < N" using assms(1) by (simp add: N_def)
  have lo: "100000 \<le> pm ! i" and twice: "2 * pm ! i \<le> px ! i" if "i < N" for i
    using generated_lists(3,4) [OF assms(3) that] by (simp_all add: pm_def px_def)
  have g4: "unit_interval g4"
    using assms(3) by (simp add: g4_def unit_interval_def)
  from mem g4 obtain u where u: "1 / 2 \<le> u" "u \<le> 3 / 4" "demand r = sum_list px * u"
    using sample_records_demand by blast
  have half: "2 * sum_list pm \<le> sum_list px"
    using lens twice by (intro sum_list_scaled_le) simp_all
  have "0 \<le> sum_list pm"
    using lo lens by (intro sum_list_nonneg) (fastforce simp: in_set_conv_nth)
  with half have total: "0 \<le> sum_list px" by simp
  have d_lo: "sum_list px * (1 / 2) \<le> sum_list px * u"
    using u(1) total by (rule mult_left_mono)
  have "sum_list px * u \<le> sum_list px * 1"
    using u(2) total by (intro mult_left_mono) simp_all
  then have d_hi: "demand r \<le> sum_list px" using u(3) by simp
  have d_mid: "sum_list px / 2 \<le> demand r" using d_lo u(3) by simp
  have built: "build_uc_model rd (Data r)
      = Inr (PyomoModel (uc_formulation r) ''gurobi_persistent'')"
    using N lens fields by (intro build_uc_model_Data) simp_all
  have "\<exists>a. feasible (uc_formulation r) a \<and> (\<forall>i. a (X i) = 1)
    \<and> (\<forall>i<length (pmin r). pmin r ! i \<le> a (Y i) \<and> a (Y i) \<le> pmax r ! i)
    \<and> sum_list (map (\<lambda>i. a (Y i)) [0..<length (pmin r)]) = demand r"
  proof (rule formulation_feasible)
    show "length (pmax r) = length (pmin r)" using fields lens by simp
    show "0 \<le> pmin r ! i \<and> pmin r ! i \<le> pmax r ! i" if "i < length (pmin r)" for i
      using that lo [of i] twice [of i] fields lens by simp
    show "sum_list (pmin r) \<le> demand r" using half d_mid fields by simp
    show "demand r \<le> sum_list (pmax r)" using d_hi fields by simp
  qed
  then obtain a where a: "feasible (uc_formulation r) a" "\<forall>i. a (X i) = 1"
      "\<forall>i<length (pmin r). pmin r ! i \<le> a (Y i) \<and> a (Y i) \<le> pmax r ! i"
      "sum_list (map (\<lambda>i. a (Y i)) [0..<length (pmin r)]) = demand r"
    by blast
  have "\<forall>i<length (pmin r). 2 * pmin r ! i \<le> pmax r ! i"
    using twice fields lens by simp
  moreover have "sum_list (pmin r) \<le> sum_list (pmax r) / 2" using half fields by simp
  moreover have "sum_list (pmax r) / 2 \<le> demand r" using d_mid fields by simp
  moreover have "demand r \<le> sum_list (pmax r)" using d_hi fields by simp
  moreover have "\<exists>m a. build_uc_model rd (Data r) = Inr (PyomoModel m ''gurobi_persistent'')
        \<and> feasible m a
        \<and> (\<forall>i<length (pmin r). a (X i) = 1
              \<and> pmin r ! i \<le> a (Y i) \<and> a (Y i) \<le> pmax r ! i)
        \<and> sum_list (map (\<lambda>i. a (Y i)) [0..<length (pmin r)]) = demand r"
    using built a by (intro exI [of _ "uc_formulation r"] exI [of _ a]) simp
  ultimately show ?thesis by blast
qed

text \<open>One sample of one generator.\<close>

theorem random_uc_data_feasible_witness:
  "(1::int) \<le> 1 \<and> halves 42 = Inr (\<lambda>k. 1 / 2) \<and> unit_interval (\<lambda>k. 1 / 2)
   \<and> random_uc_data halves 1 1 42
       = Inr [\<lparr>demand = 609375, pmin = [300000], pmax = [975000],
               cfix = [33750000], cvar = [1.375]\<rparr>]
   \<and> (\<exists>m a. build_uc_model no_files
          (Data \<lparr>demand = 609375, pmin = [300000], pmax = [975000],
                 cfix = [33750000], cvar = [1.375]\<rparr>)
        = Inr (PyomoModel m ''gurobi_persistent'')
      \<and> feasible m a \<and> a (X 0) = 1 \<and> 300000 \<le> a (Y 0) \<and> a (Y 0) \<le> 975000)"
proof -
  have run: "random_uc_data halves 1 1 42
       = Inr [\<lparr>demand = 609375, pmin = [300000], pmax = [975000],
               cfix = [33750000], cvar = [1.375]\<rparr>]"
    by (simp add: random_uc_data_def halves_def rvs_def rvs_scalar_def)
  have unit: "unit_interval (\<lambda>k. 1 / 2)" by (simp add: unit_interval_def)
  have seed: "halves 42 = Inr (\<lambda>k. 1 / 2)" by (simp add: halves_def)
  from random_uc_data_feasible [of 1 halves 42 "\<lambda>k. 1 / 2" 1 _ _ no_files, OF _ seed unit run]
  show ?thesis using run seed unit by simp blast
qed

text \<open>
  Claim C10 as it was stated, for every record that the generator produces, fails for
  \<open>n = 0\<close>: the generator returns a record without generators, for which the
  builder raises a ValueError and yields no model.
\<close>

theorem random_uc_data_no_generators_counterexample:
  "random_uc_data halves 1 0 42
     = Inr [\<lparr>demand = 0, pmin = [], pmax = [], cfix = [], cvar = []\<rparr>]
   \<and> build_uc_model no_files
       (Data \<lparr>demand = 0, pmin = [], pmax = [], cfix = [], cvar = []\<rparr>)
     = Inl ValueError"
  by (simp add: random_uc_data_def halves_def rvs_def rvs_scalar_def build_uc_model_def)

section \<open>The generator of the JuMP tutorial\<close>

text \<open>
  The Julia generator draws from the same ranges as the Python one, except for the
  factor of \<open>pmax\<close>, which lies in \<open>[2, 2.5]\<close> instead of \<open>[2, 4.5]\<close>. It has the
  properties shown for the Python generator, and its records give feasible JuMP models.
\<close>

lemma sample_records_jl_eq:
  "sample_records_jl k pm px cf cv g = sample_records k pm px cf cv g"
  by (induction k arbitrary: g) (simp_all add: rand_Uniform_scalar_def rvs_scalar_def)

lemma random_uc_data_jl_Inr:
  assumes "0 \<le> n" and "Random_seed seed = Inr g"
  shows "random_uc_data_jl Random_seed samples n seed =
    Inr (sample_records (nat samples)
      (map (\<lambda>k. 100000 + 400000 * g k) [0..<nat n])
      (map2 (*) (map (\<lambda>k. 100000 + 400000 * g k) [0..<nat n])
                (map (\<lambda>k. 2 + 0.5 * g (nat n + k)) [0..<nat n]))
      (map2 (*) (map (\<lambda>k. 100000 + 400000 * g k) [0..<nat n])
                (map (\<lambda>k. 100 + 25 * g (nat n + (nat n + k))) [0..<nat n]))
      (map (\<lambda>k. 1.25 + 0.25 * g (nat n + (nat n + (nat n + k)))) [0..<nat n])
      (\<lambda>k. g (nat n + (nat n + (nat n + (nat n + k))))))"
  using assms
  by (simp add: random_uc_data_jl_def rand_Uniform_def Let_def sample_records_jl_eq)

lemma generated_lists_jl:
  fixes g :: rng and N :: nat
  assumes "unit_interval g"
  defines "pm \<equiv> map (\<lambda>k. 100000 + 400000 * g k) [0..<N]"
    and "px \<equiv> map2 (*) (map (\<lambda>k. 100000 + 400000 * g k) [0..<N])
                        (map (\<lambda>k. 2 + 0.5 * g (N + k)) [0..<N])"
  shows "length pm = N" and "length px = N"
    and "\<And>i. i < N \<Longrightarrow> 100000 \<le> pm ! i"
    and "\<And>i. i < N \<Longrightarrow> 2 * pm ! i \<le> px ! i"
proof -
  show "length pm = N" "length px = N" by (simp_all add: pm_def px_def)
  show lo: "100000 \<le> pm ! i" if "i < N" for i
    using that scaled_bounds(1) [OF assms(1), of 400000 100000 i] by (simp add: pm_def)
  show "2 * pm ! i \<le> px ! i" if "i < N" for i
  proof -
    have "0 \<le> pm ! i" using lo [OF that] by simp
    moreover have "(2::real) \<le> 2 + 0.5 * g (N + i)"
      using scaled_bounds(1) [OF assms(1), of "0.5" 2 "N + i"] by simp
    ultimately have "pm ! i * 2 \<le> pm ! i * (2 + 0.5 * g (N + i))"
      by (rule mult_left_mono [rotated])
    with that show ?thesis by (simp add: pm_def px_def mult.commute)
  qed
qed

lemma random_uc_data_jl_records:
  assumes "1 \<le> samples" and "1 \<le> n"
    and "Random_seed seed = Inr g" and "unit_interval g"
  shows "\<exists>rs pm px cf cv. random_uc_data_jl Random_seed samples n seed = Inr rs
    \<and> int (length rs) = samples
    \<and> int (length pm) = n \<and> int (length px) = n
    \<and> int (length cf) = n \<and> int (length cv) = n
    \<and> (\<forall>r \<in> set rs. pmin r = pm \<and> pmax r = px \<and> cfix r = cf \<and> cvar r = cv
          \<and> 0.5 * sum_list px \<le> demand r \<and> demand r \<le> 0.75 * sum_list px)"
proof -
  define N where "N = nat n"
  define pm where "pm = map (\<lambda>k. 100000 + 400000 * g k) [0..<N]"
  define px where "px = map2 (*) (map (\<lambda>k. 100000 + 400000 * g k) [0..<N])
                        (map (\<lambda>k. 2 + 0.5 * g (N + k)) [0..<N])"
  define cf where "cf = map2 (*) (map (\<lambda>k. 100000 + 400000 * g k) [0..<N])
                        (map (\<lambda>k. 100 + 25 * g (N + (N + k))) [0..<N])"
  define cv where "cv = map (\<lambda>k. 1.25 + 0.25 * g (N + (N + (N + k)))) [0..<N]"
  define g4 where "g4 = (\<lambda>k. g (N + (N + (N + (N + k)))))"
  define rs where "rs = sample_records (nat samples) pm px cf cv g4"
  have run: "random_uc_data_jl Random_seed samples n seed = Inr rs"
    using assms(2,3) random_uc_data_jl_Inr [of n Random_seed seed g samples]
    by (simp add: rs_def pm_def px_def cf_def cv_def g4_def N_def)
  have lens: "int (length pm) = n" "int (length px) = n" "int (length cf) = n"
      "int (length cv) = n"
    using assms(2) by (simp_all add: pm_def px_def cf_def cv_def N_def)
  have g4: "unit_interval g4"
    using assms(4) by (simp add: g4_def unit_interval_def)
  have pos: "0 \<le> px ! i" if "i < N" for i
    using generated_lists_jl(3,4) [OF assms(4) that] by (simp add: px_def)
  have "length px = N" by (simp add: px_def)
  with pos have total: "0 \<le> sum_list px"
    by (intro sum_list_nonneg) (auto simp: in_set_conv_nth)
  have each: "pmin r = pm \<and> pmax r = px \<and> cfix r = cf \<and> cvar r = cv
      \<and> 0.5 * sum_list px \<le> demand r \<and> demand r \<le> 0.75 * sum_list px"
    if "r \<in> set rs" for r
  proof -
    from that have fields: "pmin r = pm \<and> pmax r = px \<and> cfix r = cf \<and> cvar r = cv"
      unfolding rs_def by (rule sample_records_fields)
    from that g4 obtain u where u: "1 / 2 \<le> u" "u \<le> 3 / 4" "demand r = sum_list px * u"
      unfolding rs_def using sample_records_demand by blast
    have "sum_list px * (1 / 2) \<le> sum_list px * u"
      using u(1) total by (rule mult_left_mono)
    moreover have "sum_list px * u \<le> sum_list px * (3 / 4)"
      using u(2) total by (rule mult_left_mono)
    ultimately show ?thesis using fields u(3) by simp
  qed
  have "int (length rs) = samples" using assms(1) by (simp add: rs_def)
  with run lens each show ?thesis by blast
qed

lemma formulation_jl_feasible:
  assumes "feasible (uc_formulation d) a"
  shows "feasible_jl (uc_formulation_jl d)
           (\<lambda>v. case v of X g \<Rightarrow> a (X (g - 1)) | Y g \<Rightarrow> a (Y (g - 1)))"
proof -
  have "(\<lambda>v. case v of X g \<Rightarrow> a (X (g - 1)) | Y g \<Rightarrow> a (Y (g - 1))) \<circ> shift_var = a"
  proof (rule ext)
    fix v
    show "((\<lambda>v. case v of X g \<Rightarrow> a (X (g - 1)) | Y g \<Rightarrow> a (Y (g - 1))) \<circ> shift_var) v
        = a v"
      by (cases v) simp_all
  qed
  with assms show ?thesis by (simp add: feasible_jl_shift)
qed

lemma random_uc_data_jl_feasible:
  assumes "1 \<le> n"
    and "Random_seed seed = Inr g" and "unit_interval g"
    and "random_uc_data_jl Random_seed samples n seed = Inr rs" and "r \<in> set rs"
  shows "\<exists>j a. build_uc_model_jl rj (Data r) = Inr (JumpModel j)
        \<and> feasible_jl j a
        \<and> (\<forall>i<length (pmin r). a (X (Suc i)) = 1
              \<and> pmin r ! i \<le> a (Y (Suc i)) \<and> a (Y (Suc i)) \<le> pmax r ! i)"
proof -
  define N where "N = nat n"
  define pm where "pm = map (\<lambda>k. 100000 + 400000 * g k) [0..<N]"
  define px where "px = map2 (*) (map (\<lambda>k. 100000 + 400000 * g k) [0..<N])
                        (map (\<lambda>k. 2 + 0.5 * g (N + k)) [0..<N])"
  define cf where "cf = map2 (*) (map (\<lambda>k. 100000 + 400000 * g k) [0..<N])
                        (map (\<lambda>k. 100 + 25 * g (N + (N + k))) [0..<N])"
  define cv where "cv = map (\<lambda>k. 1.25 + 0.25 * g (N + (N + (N + k)))) [0..<N]"
  define g4 where "g4 = (\<lambda>k. g (N + (N + (N + (N + k)))))"
  have "random_uc_data_jl Random_seed samples n seed
      = Inr (sample_records (nat samples) pm px cf cv g4)"
    using assms(1,2) random_uc_data_jl_Inr [of n Random_seed seed g samples]
    by (simp add: pm_def px_def cf_def cv_def g4_def N_def)
  with assms(4,5) have mem: "r \<in> set (sample_records (nat samples) pm px cf cv g4)"
    by simp
  then have fields: "pmin r = pm" "pmax r = px" "cfix r = cf" "cvar r = cv"
    using sample_records_fields by blast+
  have lens: "length pm = N" "length px = N" "length cf = N" "length cv = N"
    by (simp_all add: pm_def px_def cf_def cv_def)
  have lo: "100000 \<le> pm ! i" and twice: "2 * pm ! i \<le> px ! i" if "i < N" for i
    using generated_lists_jl(3,4) [OF assms(3) that] by (simp_all add: pm_def px_def)
  have g4: "unit_interval g4"
    using assms(3) by (simp add: g4_def unit_interval_def)
  from mem g4 obtain u where u: "1 / 2 \<le> u" "u \<le> 3 / 4" "demand r = sum_list px * u"
    using sample_records_demand by blast
  have half: "2 * sum_list pm \<le> sum_list px"
    using lens twice by (intro sum_list_scaled_le) simp_all
  have "0 \<le> sum_list pm"
    using lo lens by (intro sum_list_nonneg) (fastforce simp: in_set_conv_nth)
  with half have total: "0 \<le> sum_list px" by simp
  have d_lo: "sum_list px * (1 / 2) \<le> sum_list px * u"
    using u(1) total by (rule mult_left_mono)
  have "sum_list px * u \<le> sum_list px * 1"
    using u(2) total by (intro mult_left_mono) simp_all
  then have d_hi: "demand r \<le> sum_list px" using u(3) by simp
  have d_mid: "sum_list px / 2 \<le> demand r" using d_lo u(3) by simp
  have built: "build_uc_model_jl rj (Data r) = Inr (JumpModel (uc_formulation_jl r))"
    using lens fields by (intro build_uc_model_jl_Data) simp_all
  have "\<exists>a. feasible (uc_formulation r) a \<and> (\<forall>i. a (X i) = 1)
    \<and> (\<forall>i<length (pmin r). pmin r ! i \<le> a (Y i) \<and> a (Y i) \<le> pmax r ! i)
    \<and> sum_list (map (\<lambda>i. a (Y i)) [0..<length (pmin r)]) = demand r"
  proof (rule formulation_feasible)
    show "length (pmax r) = length (pmin r)" using fields lens by simp
    show "0 \<le> pmin r ! i \<and> pmin r ! i \<le> pmax r ! i" if "i < length (pmin r)" for i
      using that lo [of i] twice [of i] fields lens by simp
    show "sum_list (pmin r) \<le> demand r" using half d_mid fields by simp
    show "demand r \<le> sum_list (pmax r)" using d_hi fields by simp
  qed
  then obtain a where a: "feasible (uc_formulation r) a" "\<forall>i. a (X i) = 1"
      "\<forall>i<length (pmin r). pmin r ! i \<le> a (Y i) \<and> a (Y i) \<le> pmax r ! i"
    by blast
  let ?b = "\<lambda>v. case v of X g \<Rightarrow> a (X (g - 1)) | Y g \<Rightarrow> a (Y (g - 1))"
  have "feasible_jl (uc_formulation_jl r) ?b"
    using a(1) by (rule formulation_jl_feasible)
  with built a(2,3) show ?thesis
    by (intro exI [of _ "uc_formulation_jl r"] exI [of _ ?b]) simp
qed

end
